theory Spec2Isabelle
  imports Main
begin

section \<open>Browser storage\<close>

text \<open>
  \<^verbatim>\<open>localStorage\<close> is a dictionary from string keys to string values.
  \<^verbatim>\<open>getItem\<close> answers \<^verbatim>\<open>null\<close> (here \<open>None\<close>) for a key that is not stored.
\<close>

type_synonym storage = "string \<rightharpoonup> string"

definition getItem :: "storage \<Rightarrow> string \<Rightarrow> string option" where
  "getItem ls k = ls k"

definition setItem :: "storage \<Rightarrow> string \<Rightarrow> string \<Rightarrow> storage" where
  "setItem ls k v = ls(k \<mapsto> v)"

definition removeItem :: "storage \<Rightarrow> string \<Rightarrow> storage" where
  "removeItem ls k = ls(k := None)"

section \<open>HTTP outcomes\<close>

text \<open>
  A request either resolves with the decoded body or rejects. The error taxonomy of the
  client has two kinds of rejected request: the transport failed, or the server answered
  with a status outside 2xx.
\<close>

datatype http_error = NetworkFailure | ServerRejection nat

datatype http_method = GET | POST | PATCH | DELETE

section \<open>Authentication context (AuthProvider)\<close>

text \<open>
  The provider holds three \<^verbatim>\<open>useState\<close> cells. The member profile type lives in
  \<^verbatim>\<open>types/member\<close> and is a type parameter here. One of the two versions of the
  provider has no \<^verbatim>\<open>loading\<close> cell; no operation below reads it.
\<close>

record 'm auth_state =
  isAuthenticated :: bool
  member :: "'m option"
  loading :: bool

text \<open>
  The world an operation of the provider runs in: the provider's state, the browser
  storage, and the requests sent so far through the member API client (verb and path).
\<close>

record 'm world =
  auth :: "'m auth_state"
  localStorage :: storage
  http_log :: "(http_method \<times> string) list"

text \<open>The state of the first render: \<^verbatim>\<open>useState(false)\<close>, \<^verbatim>\<open>useState(null)\<close>, \<^verbatim>\<open>useState(true)\<close>.\<close>

definition initial_auth :: "'m auth_state" where
  "initial_auth = \<lparr>isAuthenticated = False, member = None, loading = True\<rparr>"

definition initial_world :: "storage \<Rightarrow> 'm world" where
  "initial_world ls = \<lparr>auth = initial_auth, localStorage = ls, http_log = []\<rparr>"

text \<open>
  JavaScript truthiness of \<^verbatim>\<open>string | null\<close>: \<^verbatim>\<open>null\<close> and the empty string are falsy.
\<close>

definition truthy :: "string option \<Rightarrow> bool" where
  "truthy v = (case v of None \<Rightarrow> False | Some s \<Rightarrow> s \<noteq> [])"

text \<open>The mount effect: \<^verbatim>\<open>if (storedToken) setIsAuthenticated(true); setloading(true)\<close>.\<close>

definition mount :: "'m world \<Rightarrow> 'm world" where
  "mount w =
     (let storedToken = getItem (localStorage w) ''token'';
          a = (if truthy storedToken then (auth w)\<lparr>isAuthenticated := True\<rparr> else auth w)
      in w\<lparr>auth := a\<lparr>loading := True\<rparr>\<rparr>)"

definition login :: "string \<Rightarrow> string \<Rightarrow> 'm world \<Rightarrow> 'm world" where
  "login token refreshToken w =
     (let ls1 = setItem (localStorage w) ''token'' token;
          ls2 = setItem ls1 ''refreshToken'' refreshToken
      in w\<lparr>localStorage := ls2, auth := (auth w)\<lparr>isAuthenticated := True\<rparr>\<rparr>)"

definition logout :: "'m world \<Rightarrow> 'm world" where
  "logout w =
     (let ls1 = removeItem (localStorage w) ''token'';
          ls2 = removeItem ls1 ''refreshToken''
      in w\<lparr>localStorage := ls2,
            auth := (auth w)\<lparr>isAuthenticated := False, member := None\<rparr>\<rparr>)"

text \<open>
  \<^verbatim>\<open>fetchProfile\<close> sends \<^verbatim>\<open>GET /members/profile\<close>; the outcome of the request is the
  first argument. The \<^verbatim>\<open>catch\<close> block logs, calls \<^verbatim>\<open>logout()\<close> and does not throw
  again, so the promise of \<^verbatim>\<open>fetchProfile\<close> resolves on both paths: the first
  component of the result is what the caller's \<^verbatim>\<open>await\<close> sees.
\<close>

definition fetchProfile ::
  "http_error + 'm \<Rightarrow> 'm world \<Rightarrow> (http_error + unit) \<times> 'm world" where
  "fetchProfile response w =
     (let w1 = w\<lparr>http_log := http_log w @ [(GET, ''/members/profile'')]\<rparr>
      in case response of
           Inr data \<Rightarrow> (Inr (), w1\<lparr>auth := (auth w1)\<lparr>member := Some data\<rparr>\<rparr>)
         | Inl error \<Rightarrow> (Inr (), logout w1))"

subsection \<open>Sequences of operations\<close>

text \<open>
  The operations a consumer of the context can trigger, and the mount effect. A
  \<^verbatim>\<open>FetchProfile\<close> step carries the outcome of its request and stands for the moment
  the request settles: that is when \<^verbatim>\<open>setMember\<close> or \<^verbatim>\<open>logout\<close> runs.
\<close>

datatype 'm auth_op =
    Mount
  | Login string string
  | Logout
  | FetchProfile "http_error + 'm"

fun step :: "'m auth_op \<Rightarrow> 'm world \<Rightarrow> 'm world" where
  "step Mount w = mount w"
| "step (Login token refreshToken) w = login token refreshToken w"
| "step Logout w = logout w"
| "step (FetchProfile response) w = snd (fetchProfile response w)"

fun run :: "'m auth_op list \<Rightarrow> 'm world \<Rightarrow> 'm world" where
  "run [] w = w"
| "run (x # xs) w = run xs (step x w)"

text \<open>The session invariant of the data model: a profile is held only while authenticated.\<close>

definition member_implies_authenticated :: "'m auth_state \<Rightarrow> bool" where
  "member_implies_authenticated a = (member a = None \<or> isAuthenticated a)"

text \<open>
  A step is a guarded fetch when it is not a successful \<^verbatim>\<open>fetchProfile\<close>, or when the
  success arrives while \<^verbatim>\<open>isAuthenticated\<close> is true; a sequence is guarded when each of
  its steps is, in the world it runs in.
\<close>

fun fetch_guarded :: "'m auth_op \<Rightarrow> 'm world \<Rightarrow> bool" where
  "fetch_guarded (FetchProfile (Inr data)) w = isAuthenticated (auth w)"
| "fetch_guarded (FetchProfile (Inl error)) w = True"
| "fetch_guarded Mount w = True"
| "fetch_guarded (Login token refreshToken) w = True"
| "fetch_guarded Logout w = True"

fun guarded_run :: "'m auth_op list \<Rightarrow> 'm world \<Rightarrow> bool" where
  "guarded_run [] w = True"
| "guarded_run (x # xs) w = (fetch_guarded x w \<and> guarded_run xs (step x w))"

section \<open>Estimate API module (api/estimate)\<close>

text \<open>
  Each function of the module sends one request through an HTTP client and hands the
  response body back; a rejected request is logged and thrown again unchanged. A call is
  described by the client it goes through, the verb, the path, the body and the headers of
  its per-call configuration. A path is a template literal: a sequence of literal text and
  interpolated numbers, whose rendering as text is left to the language. The functions read \<^verbatim>\<open>localStorage\<close> themselves: the
  provider's state is not among their inputs.
\<close>

datatype http_client = PartnerApiInstance | Axios

datatype url_part = Literal string | Interpolated int

record 'b http_call =
  client :: http_client
  verb :: http_method
  url :: "url_part list"
  body :: "'b option"
  headers :: "(string \<times> string) list"

text \<open>
  In a template literal, \<^verbatim>\<open>${token}\<close> of a \<^verbatim>\<open>string | null\<close> renders \<^verbatim>\<open>null\<close> as the four
  characters \<^verbatim>\<open>null\<close>.
\<close>

definition template_string :: "string option \<Rightarrow> string" where
  "template_string v = (case v of None \<Rightarrow> ''null'' | Some s \<Rightarrow> s)"

definition createEstimate ::
  "storage \<Rightarrow> 'b \<Rightarrow> http_error + 'r \<Rightarrow> 'b http_call \<times> (http_error + 'r)" where
  "createEstimate ls estimate response =
     (let token = getItem ls ''token''
      in (\<lparr>client = PartnerApiInstance, verb = POST, url = [Literal ''/partner/estimate''],
            body = Some estimate,
            headers = [(''Authorization'', ''Bearer '' @ template_string token)]\<rparr>,
          case response of Inr data \<Rightarrow> Inr data | Inl error \<Rightarrow> Inl error))"

definition updateEstimate ::
  "storage \<Rightarrow> int \<Rightarrow> 'b \<Rightarrow> http_error + 'r \<Rightarrow> 'b http_call \<times> (http_error + 'r)" where
  "updateEstimate ls i updateData response =
     (let token = getItem ls ''token''
      in (\<lparr>client = Axios, verb = PATCH,
            url = [Literal ''/partner/estimate?id='', Interpolated i],
            body = Some updateData,
            headers = [(''Authorization'', ''Bearer '' @ template_string token),
                       (''Accept'', ''*/*'')]\<rparr>,
          case response of Inr data \<Rightarrow> Inr data | Inl error \<Rightarrow> Inl error))"

definition deleteEstimate ::
  "storage \<Rightarrow> int \<Rightarrow> http_error + 'r \<Rightarrow> 'b http_call \<times> (http_error + 'r)" where
  "deleteEstimate ls i response =
     (let token = getItem ls ''token''
      in (\<lparr>client = PartnerApiInstance, verb = DELETE,
            url = [Literal ''/partner/estimate?id='', Interpolated i],
            body = None,
            headers = [(''Authorization'', ''Bearer '' @ template_string token)]\<rparr>,
          case response of Inr data \<Rightarrow> Inr data | Inl error \<Rightarrow> Inl error))"

definition getEstimateList :: "http_error + 'r \<Rightarrow> 'b http_call \<times> (http_error + 'r)" where
  "getEstimateList response =
     (\<lparr>client = PartnerApiInstance, verb = GET, url = [Literal ''/partner/estimate/list''],
        body = None, headers = []\<rparr>,
      case response of Inr data \<Rightarrow> Inr data | Inl error \<Rightarrow> Inl error)"

definition getCommissionList :: "http_error + 'r \<Rightarrow> 'b http_call \<times> (http_error + 'r)" where
  "getCommissionList response =
     (\<lparr>client = PartnerApiInstance, verb = GET, url = [Literal ''/partner/commissionlist''],
        body = None, headers = []\<rparr>,
      case response of Inr data \<Rightarrow> Inr data | Inl error \<Rightarrow> Inl error)"

text \<open>The header a call carries under a name, in its per-call configuration.\<close>

definition header :: "'b http_call \<Rightarrow> string \<Rightarrow> string option" where
  "header c name = map_of (headers c) name"

section \<open>Estimate list page (pages/partners/MyEstimates)\<close>

text \<open>
  The estimate record of \<^verbatim>\<open>types/estimate\<close>; its \<^verbatim>\<open>id\<close> and \<^verbatim>\<open>commissionId\<close> fields are
  \<open>estimate_id\<close> and \<open>estimate_commissionId\<close> here. Identifiers and prices are integral.
\<close>

record estimate =
  estimate_id :: int
  estimate_commissionId :: int
  tmpPrice :: int
  statement :: string
  fixedDate :: string

text \<open>The text of the alert of \<^verbatim>\<open>handleDelete\<close>'s \<^verbatim>\<open>catch\<close> block, as UTF-8 bytes.\<close>

definition estimate_delete_failed :: string where
  "estimate_delete_failed =
     [CHR 0xEA, CHR 0xB2, CHR 0xAC, CHR 0xEC, CHR 0xA0, CHR 0x81, CHR 0x20, CHR 0xEC,
      CHR 0x82, CHR 0xAD, CHR 0xEC, CHR 0xA0, CHR 0x9C, CHR 0x20, CHR 0xEC, CHR 0xA4,
      CHR 0x91, CHR 0x20, CHR 0xEC, CHR 0x98, CHR 0xA4, CHR 0xEB, CHR 0xA5, CHR 0x98,
      CHR 0xEA, CHR 0xB0, CHR 0x80, CHR 0x20, CHR 0xEB, CHR 0xB0, CHR 0x9C, CHR 0xEC,
      CHR 0x83, CHR 0x9D, CHR 0xED, CHR 0x96, CHR 0x88, CHR 0xEC, CHR 0x8A, CHR 0xB5,
      CHR 0xEB, CHR 0x8B, CHR 0x88, CHR 0xEB, CHR 0x8B, CHR 0xA4, CHR 0x2E]"

text \<open>
  What one run of \<^verbatim>\<open>handleDelete\<close> leaves: the list held by the page, the alerts shown
  and the requests sent.
\<close>

record delete_result =
  estimates :: "estimate list"
  alerts :: "string list"
  sent :: "unit http_call list"

text \<open>
  \<^verbatim>\<open>handleDelete(id)\<close>. The first argument is the answer to \<^verbatim>\<open>window.confirm\<close>, the
  third the outcome of the delete request. The handler is a closure of one render: the
  \<^verbatim>\<open>estimates\<close> it filters is the list of the render in which the button was clicked
  (\<open>captured\<close>), and \<^verbatim>\<open>setEstimates\<close> is given that filtered list, not a function of the
  current one. \<open>held\<close> is the list the page holds when the request settles; it stays as
  it is where the handler does not call \<^verbatim>\<open>setEstimates\<close>.
\<close>

definition handleDelete ::
  "bool \<Rightarrow> storage \<Rightarrow> http_error + string \<Rightarrow> int \<Rightarrow> estimate list \<Rightarrow> estimate list
   \<Rightarrow> delete_result" where
  "handleDelete confirmed ls response i captured held =
     (if confirmed then
        (case deleteEstimate ls i response of
           (call, Inr message) \<Rightarrow>
             \<lparr>estimates = filter (\<lambda>e. estimate_id e \<noteq> i) captured, alerts = [],
               sent = [call]\<rparr>
         | (call, Inl error) \<Rightarrow>
             \<lparr>estimates = held, alerts = [estimate_delete_failed], sent = [call]\<rparr>)
      else \<lparr>estimates = held, alerts = [], sent = []\<rparr>)"

section \<open>Commission hooks (hooks/useCommissions)\<close>

text \<open>
  The commission record of \<^verbatim>\<open>types/commission\<close>; its \<^verbatim>\<open>size\<close> and \<^verbatim>\<open>image\<close> fields are
  \<open>commission_size\<close> and \<open>commission_image\<close> here.
\<close>

record commission =
  commissionId :: int
  memberNick :: string
  commission_size :: "int option"
  houseType :: string
  cleanType :: string
  addressId :: int
  commission_image :: string
  desiredDate :: string
  significant :: string

text \<open>
  The query cache of the query library, as far as the hooks use it. A query key is an
  array of strings and numbers, compared part by part (strings by their characters, so
  case matters). An entry holds the cached data and the flag that marks it stale.
\<close>

datatype key_part = KString string | KNumber int

type_synonym query_key = "key_part list"

datatype cached_value = CommissionList "commission list" | OneCommission commission

record query_state =
  cached :: "cached_value option"
  isInvalidated :: bool

type_synonym query_cache = "query_key \<rightharpoonup> query_state"

text \<open>
  The argument of \<^verbatim>\<open>invalidateQueries\<close>. An array is a query key, and the call marks
  every query whose key starts with it. A bare string is not a key in the library the
  hooks import: it is taken as a filter object, it has none of a filter's properties, and
  so the call marks every query of the cache.
\<close>

datatype invalidate_arg = KeyArray query_key | BareString string

definition invalidateQueries :: "invalidate_arg \<Rightarrow> query_cache \<Rightarrow> query_cache" where
  "invalidateQueries arg qc =
     (\<lambda>q. case qc q of
            None \<Rightarrow> None
          | Some st \<Rightarrow>
              Some (case arg of
                      KeyArray k \<Rightarrow>
                        if take (length k) q = k then st\<lparr>isInvalidated := True\<rparr> else st
                    | BareString text \<Rightarrow> st\<lparr>isInvalidated := True\<rparr>))"

text \<open>\<^verbatim>\<open>setQueryData(key, data)\<close> stores \<open>data\<close> as the fresh content of the query \<open>key\<close>.\<close>

definition setQueryData :: "query_key \<Rightarrow> cached_value \<Rightarrow> query_cache \<Rightarrow> query_cache" where
  "setQueryData k v qc = qc(k \<mapsto> \<lparr>cached = Some v, isInvalidated = False\<rparr>)"

text \<open>The key of the single-commission query hook, \<^verbatim>\<open>useCommission(id)\<close>.\<close>

definition useCommission_key :: "int \<Rightarrow> query_key" where
  "useCommission_key i = [KString ''commission'', KNumber i]"

text \<open>
  The \<^verbatim>\<open>onSuccess\<close> callbacks of the three mutation hooks. The create hook passes the
  array \<^verbatim>\<open>['commissions']\<close> to \<^verbatim>\<open>invalidateQueries\<close>, the delete and update hooks the
  bare string \<^verbatim>\<open>'commissions'\<close>.
\<close>

definition useCreateCommission_onSuccess :: "commission \<Rightarrow> query_cache \<Rightarrow> query_cache" where
  "useCreateCommission_onSuccess newCommission qc =
     setQueryData [KString ''Commission'', KNumber (commissionId newCommission)]
       (OneCommission newCommission)
       (invalidateQueries (KeyArray [KString ''commissions'']) qc)"

definition useDeleteCommission_onSuccess :: "query_cache \<Rightarrow> query_cache" where
  "useDeleteCommission_onSuccess qc = invalidateQueries (BareString ''commissions'') qc"

definition useUpdateCommission_onSuccess :: "commission \<Rightarrow> query_cache \<Rightarrow> query_cache" where
  "useUpdateCommission_onSuccess updatedCommission qc =
     invalidateQueries (BareString ''commissions'')
       (setQueryData [KString ''commission'', KNumber (commissionId updatedCommission)]
          (OneCommission updatedCommission) qc)"

section \<open>Commission form (CommissionWrite)\<close>

text \<open>
  The form state is an object written through a computed key, \<^verbatim>\<open>[name]: ...\<close>, so it is
  a map from field names to values; a value is \<^verbatim>\<open>null\<close>, a number or a string. The
  numbers of the language are a type parameter, and \<^verbatim>\<open>Number(value)\<close>, its conversion
  from strings, is the first argument of the handler.
\<close>

datatype 'n form_value = JNull | JNumber 'n | JString string

type_synonym 'n commission_form = "string \<rightharpoonup> 'n form_value"

definition CommissionWrite_handleChange ::
  "(string \<Rightarrow> 'n) \<Rightarrow> string \<Rightarrow> string \<Rightarrow> 'n commission_form \<Rightarrow> 'n commission_form" where
  "CommissionWrite_handleChange Number name val prev =
     prev(name \<mapsto>
       (if name = ''addressId'' \<or> name = ''size''
        then (if val = [] then JNull else JNumber (Number val))
        else JString val))"

text \<open>What one run of the form's \<^verbatim>\<open>handleSubmit\<close> leaves: the payloads handed to the
  create mutation and the routes navigated to.\<close>

record 'n submit_result =
  payloads :: "'n commission_form list"
  navigated :: "string list"

text \<open>
  \<^verbatim>\<open>handleSubmit\<close>. \<open>toISOString\<close> stands for \<^verbatim>\<open>new Date(form.desiredDate).toISOString()\<close>,
  which throws on an invalid date (\<open>None\<close>); the throw lands in the \<^verbatim>\<open>catch\<close> block
  before any mutation is started. The third argument is the outcome of the mutation.
\<close>

definition CommissionWrite_handleSubmit ::
  "('n form_value option \<Rightarrow> string option) \<Rightarrow> 'n commission_form \<Rightarrow> http_error + 'r
   \<Rightarrow> 'n submit_result" where
  "CommissionWrite_handleSubmit toISOString form response =
     (case toISOString (form ''desiredDate'') of
        None \<Rightarrow> \<lparr>payloads = [], navigated = []\<rparr>
      | Some isoDate \<Rightarrow>
          (let newCommission = form(''desiredDate'' \<mapsto> JString isoDate)
           in case response of
                Inr created \<Rightarrow> \<lparr>payloads = [newCommission], navigated = [''/commissionlist'']\<rparr>
              | Inl error \<Rightarrow> \<lparr>payloads = [newCommission], navigated = []\<rparr>))"

section \<open>Partner edit page (pages/partners/PartnerEdit)\<close>

text \<open>
  \<^verbatim>\<open>formData\<close> and \<^verbatim>\<open>errors\<close> are objects written through the computed key
  \<^verbatim>\<open>[name]\<close>, so both are maps from field names to strings; a field that is not there
  reads as \<^verbatim>\<open>undefined\<close> (\<open>None\<close>), which is falsy like the empty string.
\<close>

record edit_state =
  formData :: "string \<rightharpoonup> string"
  errors :: "string \<rightharpoonup> string"

text \<open>The profile that \<^verbatim>\<open>useCurrentPartner\<close> delivers.\<close>

record partner =
  email :: string
  phoneNumber :: string
  managerName :: string
  companyName :: string
  businessType :: string
  partnerType :: string

text \<open>The validators answer with an object whose \<^verbatim>\<open>message\<close> the page stores.\<close>

record validation_result =
  message :: string

text \<open>
  The three validators of \<^verbatim>\<open>utils/validationUtils\<close> are not among the sources: they are
  parameters of the handlers, pure functions of their arguments. The arguments of the
  confirmation validator are fields of \<^verbatim>\<open>formData\<close>, or the value of the event.
\<close>

type_synonym validator = "string \<Rightarrow> validation_result"

type_synonym confirm_validator = "string option \<Rightarrow> string option \<Rightarrow> validation_result"

text \<open>The state of the first render; \<open>emailParam\<close> is the route parameter, \<^verbatim>\<open>email || ''\<close>.\<close>

definition initial_edit :: "string option \<Rightarrow> edit_state" where
  "initial_edit emailParam =
     \<lparr>formData =
        [''email'' \<mapsto> (case emailParam of None \<Rightarrow> [] | Some e \<Rightarrow> e),
         ''password'' \<mapsto> [], ''confirmPassword'' \<mapsto> [], ''phoneNumber'' \<mapsto> [],
         ''managerName'' \<mapsto> [], ''companyName'' \<mapsto> [], ''businessType'' \<mapsto> [],
         ''partnerType'' \<mapsto> ''INDIVIDUAL''],
      errors =
        [''password'' \<mapsto> [], ''confirmPassword'' \<mapsto> [], ''phoneNumber'' \<mapsto> [],
         ''managerName'' \<mapsto> [], ''companyName'' \<mapsto> [], ''businessType'' \<mapsto> [],
         ''partnerType'' \<mapsto> []]\<rparr>"

text \<open>The effect that runs when the partner profile arrives: it replaces \<^verbatim>\<open>formData\<close>.\<close>

definition partnerLoaded :: "partner \<Rightarrow> edit_state \<Rightarrow> edit_state" where
  "partnerLoaded p st =
     st\<lparr>formData :=
        [''email'' \<mapsto> email p, ''password'' \<mapsto> [], ''confirmPassword'' \<mapsto> [],
         ''phoneNumber'' \<mapsto> phoneNumber p, ''managerName'' \<mapsto> managerName p,
         ''companyName'' \<mapsto> companyName p, ''businessType'' \<mapsto> businessType p,
         ''partnerType'' \<mapsto> partnerType p]\<rparr>"

text \<open>
  \<^verbatim>\<open>handleChange\<close>. The two \<^verbatim>\<open>setErrors\<close> calls are functional updates and compose: the
  one inside the \<^verbatim>\<open>password\<close> branch (\<open>errors1\<close>) stores the confirmation message when the
  password changes while a confirmation is typed in, the one after the branches stores
  the message for the changed field, or the empty string when no validator applies to it.
\<close>

definition PartnerEdit_handleChange ::
  "validator \<Rightarrow> validator \<Rightarrow> confirm_validator
   \<Rightarrow> string \<Rightarrow> string \<Rightarrow> edit_state \<Rightarrow> edit_state" where
  "PartnerEdit_handleChange validatePhoneNumber validatePassword validateConfirmPassword
     name val st =
     (case
        (if name = ''phoneNumber'' then (Some (validatePhoneNumber val), errors st)
         else if name = ''password'' then
           (Some (validatePassword val),
            if truthy (formData st ''confirmPassword'')
            then (errors st)(''confirmPassword'' \<mapsto>
                    message (validateConfirmPassword (Some val)
                               (formData st ''confirmPassword'')))
            else errors st)
         else if name = ''confirmPassword'' then
           (Some (validateConfirmPassword (formData st ''password'') (Some val)),
            errors st)
         else (None, errors st))
      of (validationResult, errors1) \<Rightarrow>
        \<lparr>formData = (formData st)(name \<mapsto> val),
          errors =
            (case validationResult of
               Some r \<Rightarrow> errors1(name \<mapsto> message r)
             | None \<Rightarrow> errors1(name \<mapsto> []))\<rparr>)"

text \<open>The two texts \<^verbatim>\<open>handleSubmit\<close> stores under \<^verbatim>\<open>general\<close>, as UTF-8 bytes.\<close>

definition check_input_again :: string where
  "check_input_again =
     [CHR 0xEC, CHR 0x9E, CHR 0x85, CHR 0xEB, CHR 0xA0, CHR 0xA5, CHR 0xED, CHR 0x95,
      CHR 0x9C, CHR 0x20, CHR 0xEC, CHR 0xA0, CHR 0x95, CHR 0xEB, CHR 0xB3, CHR 0xB4,
      CHR 0xEB, CHR 0xA5, CHR 0xBC, CHR 0x20, CHR 0xEB, CHR 0x8B, CHR 0xA4, CHR 0xEC,
      CHR 0x8B, CHR 0x9C, CHR 0x20, CHR 0xED, CHR 0x99, CHR 0x95, CHR 0xEC, CHR 0x9D,
      CHR 0xB8, CHR 0xED, CHR 0x95, CHR 0xB4, CHR 0xEC, CHR 0xA3, CHR 0xBC, CHR 0xEC,
      CHR 0x84, CHR 0xB8, CHR 0xEC, CHR 0x9A, CHR 0x94, CHR 0x2E]"

definition update_failed :: string where
  "update_failed =
     [CHR 0xED, CHR 0x9A, CHR 0x8C, CHR 0xEC, CHR 0x9B, CHR 0x90, CHR 0x20, CHR 0xEC,
      CHR 0xA0, CHR 0x95, CHR 0xEB, CHR 0xB3, CHR 0xB4, CHR 0x20, CHR 0xEC, CHR 0x88,
      CHR 0x98, CHR 0xEC, CHR 0xA0, CHR 0x95, CHR 0xEC, CHR 0x97, CHR 0x90, CHR 0x20,
      CHR 0xEC, CHR 0x8B, CHR 0xA4, CHR 0xED, CHR 0x8C, CHR 0xA8, CHR 0xED, CHR 0x96,
      CHR 0x88, CHR 0xEC, CHR 0x8A, CHR 0xB5, CHR 0xEB, CHR 0x8B, CHR 0x88, CHR 0xEB,
      CHR 0x8B, CHR 0xA4, CHR 0x2E]"

text \<open>The condition under which \<^verbatim>\<open>handleSubmit\<close> returns before its \<^verbatim>\<open>try\<close> block.\<close>

definition submit_blocked :: "edit_state \<Rightarrow> bool" where
  "submit_blocked st =
     (truthy (errors st ''phoneNumber'') \<or> truthy (errors st ''password'')
      \<or> truthy (errors st ''confirmPassword'')
      \<or> (truthy (formData st ''password'')
          \<and> formData st ''password'' \<noteq> formData st ''confirmPassword''))"

text \<open>
  What one run of \<^verbatim>\<open>handleSubmit\<close> leaves: the page state, the payloads handed to the
  update mutation and the routes navigated to.
\<close>

record edit_submit_result =
  state_after :: edit_state
  update_requests :: "(string \<rightharpoonup> string) list"
  routes :: "string list"

text \<open>
  \<^verbatim>\<open>handleSubmit\<close>. \<open>emailParam\<close> is the route parameter (rendered \<^verbatim>\<open>undefined\<close> by the
  template when absent), the second argument the outcome of the update mutation. In the
  payload \<^verbatim>\<open>password: formData.password || undefined\<close> leaves the key without a value
  when the password is empty.
\<close>

definition PartnerEdit_handleSubmit ::
  "string option \<Rightarrow> http_error + 'r \<Rightarrow> edit_state \<Rightarrow> edit_submit_result" where
  "PartnerEdit_handleSubmit emailParam response st =
     (if submit_blocked st then
        \<lparr>state_after = st\<lparr>errors := (errors st)(''general'' \<mapsto> check_input_again)\<rparr>,
          update_requests = [], routes = []\<rparr>
      else
        (let dataToUpdate =
               (formData st)(''password'' :=
                  (if truthy (formData st ''password'') then formData st ''password'' else None))
         in case response of
              Inr updated \<Rightarrow>
                \<lparr>state_after = st, update_requests = [dataToUpdate],
                  routes = [''/pt/'' @ (case emailParam of None \<Rightarrow> ''undefined'' | Some e \<Rightarrow> e)]\<rparr>
            | Inl error \<Rightarrow>
                \<lparr>state_after = st\<lparr>errors := (errors st)(''general'' \<mapsto> update_failed)\<rparr>,
                  update_requests = [dataToUpdate], routes = []\<rparr>))"

text \<open>The two alerts of \<^verbatim>\<open>handleWithdraw\<close>, as UTF-8 bytes.\<close>

definition withdraw_done :: string where
  "withdraw_done =
     [CHR 0xED, CHR 0x9A, CHR 0x8C, CHR 0xEC, CHR 0x9B, CHR 0x90, CHR 0x20, CHR 0xED,
      CHR 0x83, CHR 0x88, CHR 0xED, CHR 0x87, CHR 0xB4, CHR 0xEA, CHR 0xB0, CHR 0x80,
      CHR 0x20, CHR 0xEC, CHR 0x99, CHR 0x84, CHR 0xEB, CHR 0xA3, CHR 0x8C, CHR 0xEB,
      CHR 0x90, CHR 0x98, CHR 0xEC, CHR 0x97, CHR 0x88, CHR 0xEC, CHR 0x8A, CHR 0xB5,
      CHR 0xEB, CHR 0x8B, CHR 0x88, CHR 0xEB, CHR 0x8B, CHR 0xA4, CHR 0x2E]"

definition withdraw_failed :: string where
  "withdraw_failed =
     [CHR 0xED, CHR 0x9A, CHR 0x8C, CHR 0xEC, CHR 0x9B, CHR 0x90, CHR 0x20, CHR 0xED,
      CHR 0x83, CHR 0x88, CHR 0xED, CHR 0x87, CHR 0xB4, CHR 0xEC, CHR 0x97, CHR 0x90,
      CHR 0x20, CHR 0xEC, CHR 0x8B, CHR 0xA4, CHR 0xED, CHR 0x8C, CHR 0xA8, CHR 0xED,
      CHR 0x96, CHR 0x88, CHR 0xEC, CHR 0x8A, CHR 0xB5, CHR 0xEB, CHR 0x8B, CHR 0x88,
      CHR 0xEB, CHR 0x8B, CHR 0xA4, CHR 0x2E]"

text \<open>
  What one run of \<^verbatim>\<open>handleWithdraw\<close> leaves: the world of the authentication context
  (the page runs under the provider and shares the browser storage with it), the alerts
  shown and the routes navigated to.
\<close>

record 'm withdraw_result =
  world_after :: "'m world"
  shown :: "string list"
  went :: "string list"

text \<open>
  \<^verbatim>\<open>handleWithdraw\<close>. The first argument is the answer to \<^verbatim>\<open>window.confirm\<close>, the
  second the outcome of the withdrawal mutation.
\<close>

definition handleWithdraw :: "bool \<Rightarrow> http_error + 'r \<Rightarrow> 'm world \<Rightarrow> 'm withdraw_result" where
  "handleWithdraw isConfirmed response w =
     (if isConfirmed then
        (case response of
           Inr done \<Rightarrow>
             (let ls1 = removeItem (localStorage w) ''token'';
                  ls2 = removeItem ls1 ''refreshToken''
              in \<lparr>world_after = w\<lparr>localStorage := ls2\<rparr>, shown = [withdraw_done],
                   went = [''/'']\<rparr>)
         | Inl error \<Rightarrow> \<lparr>world_after = w, shown = [withdraw_failed], went = []\<rparr>)
      else \<lparr>world_after = w, shown = [], went = []\<rparr>)"

subsection \<open>Sequences of events on the page\<close>

text \<open>
  What can happen to the page state: a change event of an input (its name and value), a
  submission (with the outcome its update request would have), the arrival of the
  partner profile.
\<close>

datatype 'r edit_event =
    Change string string
  | Submit "http_error + 'r"
  | PartnerLoaded partner

fun edit_step ::
  "validator \<Rightarrow> validator \<Rightarrow> confirm_validator
   \<Rightarrow> string option \<Rightarrow> 'r edit_event \<Rightarrow> edit_state \<Rightarrow> edit_state" where
  "edit_step vPhone vPassword vConfirm emailParam (Change name val) st =
     PartnerEdit_handleChange vPhone vPassword vConfirm name val st"
| "edit_step vPhone vPassword vConfirm emailParam (Submit response) st =
     state_after (PartnerEdit_handleSubmit emailParam response st)"
| "edit_step vPhone vPassword vConfirm emailParam (PartnerLoaded p) st = partnerLoaded p st"

fun edit_run ::
  "validator \<Rightarrow> validator \<Rightarrow> confirm_validator
   \<Rightarrow> string option \<Rightarrow> 'r edit_event list \<Rightarrow> edit_state \<Rightarrow> edit_state" where
  "edit_run vPhone vPassword vConfirm emailParam [] st = st"
| "edit_run vPhone vPassword vConfirm emailParam (ev # evs) st =
     edit_run vPhone vPassword vConfirm emailParam evs
       (edit_step vPhone vPassword vConfirm emailParam ev st)"

text \<open>
  The confirmation message on display is current: while a confirmation is typed in, the
  \<^verbatim>\<open>confirmPassword\<close> error is the message of the confirmation validator on the two
  password fields as they stand.
\<close>

definition confirm_error_current :: "confirm_validator \<Rightarrow> edit_state \<Rightarrow> bool" where
  "confirm_error_current vConfirm st =
     (truthy (formData st ''confirmPassword'') \<longrightarrow>
      errors st ''confirmPassword''
        = Some (message (vConfirm (formData st ''password'')
                  (formData st ''confirmPassword''))))"

section \<open>Properties of the authentication context\<close>

text \<open>
  C1. From every world (any authenticated flag, any member, any stored tokens),
  \<^verbatim>\<open>logout()\<close> leaves \<^verbatim>\<open>isAuthenticated = false\<close>, \<^verbatim>\<open>member = null\<close> and neither
  \<^verbatim>\<open>token\<close> nor \<^verbatim>\<open>refreshToken\<close> in storage. \<^verbatim>\<open>logout\<close> is a total function with no
  failing branch: it yields a world for every input.
\<close>

theorem logout_clears_session:
  "isAuthenticated (auth (logout w)) = False
   \<and> member (auth (logout w)) = None
   \<and> getItem (localStorage (logout w)) ''token'' = None
   \<and> getItem (localStorage (logout w)) ''refreshToken'' = None"
  by (simp add: logout_def removeItem_def getItem_def Let_def)

text \<open>
  C2. Whatever the world and whatever the failure of the profile request (transport
  failure or any server rejection), \<^verbatim>\<open>fetchProfile\<close> ends in the session state that
  \<^verbatim>\<open>logout()\<close> produces from the same world: not authenticated, no member, neither
  token stored. Its promise resolves: the error does not reach the caller.
\<close>

theorem fetchProfile_failure_is_logout:
  "fst (fetchProfile (Inl e) w) = Inr ()
   \<and> auth (snd (fetchProfile (Inl e) w)) = auth (logout w)
   \<and> localStorage (snd (fetchProfile (Inl e) w)) = localStorage (logout w)
   \<and> isAuthenticated (auth (snd (fetchProfile (Inl e) w))) = False
   \<and> member (auth (snd (fetchProfile (Inl e) w))) = None
   \<and> getItem (localStorage (snd (fetchProfile (Inl e) w))) ''token'' = None
   \<and> getItem (localStorage (snd (fetchProfile (Inl e) w))) ''refreshToken'' = None"
  by (simp add: fetchProfile_def logout_def removeItem_def getItem_def Let_def)

text \<open>
  C4. After \<^verbatim>\<open>login(t, r)\<close> the flag is true, storage holds \<open>t\<close> under \<^verbatim>\<open>token\<close> and
  \<open>r\<close> under \<^verbatim>\<open>refreshToken\<close>, the member is the one held before, and no request has
  been added to the log.
\<close>

theorem login_persists_tokens:
  "isAuthenticated (auth (login t r w)) = True
   \<and> getItem (localStorage (login t r w)) ''token'' = Some t
   \<and> getItem (localStorage (login t r w)) ''refreshToken'' = Some r
   \<and> member (auth (login t r w)) = member (auth w)
   \<and> http_log (login t r w) = http_log w"
  by (simp add: login_def setItem_def getItem_def Let_def)

subsection \<open>The session invariant\<close>

lemma mount_member: "member (auth (mount w)) = member (auth w)"
  by (simp add: mount_def Let_def)

lemma mount_keeps_authenticated:
  "isAuthenticated (auth w) \<Longrightarrow> isAuthenticated (auth (mount w))"
  by (simp add: mount_def Let_def)

lemma step_preserves_invariant:
  assumes "member_implies_authenticated (auth w)" and "fetch_guarded x w"
  shows "member_implies_authenticated (auth (step x w))"
proof (cases x)
  case Mount
  with assms(1) show ?thesis
    using mount_member [of w] mount_keeps_authenticated [of w]
    by (auto simp: member_implies_authenticated_def)
next
  case (Login token refreshToken)
  then show ?thesis
    by (simp add: member_implies_authenticated_def login_def Let_def)
next
  case Logout
  then show ?thesis
    by (simp add: member_implies_authenticated_def logout_def Let_def)
next
  case (FetchProfile response)
  show ?thesis
  proof (cases response)
    case (Inl error)
    with FetchProfile show ?thesis
      by (simp add: member_implies_authenticated_def fetchProfile_def logout_def Let_def)
  next
    case (Inr data)
    with FetchProfile assms(2) show ?thesis
      by (simp add: member_implies_authenticated_def fetchProfile_def Let_def)
  qed
qed

lemma run_preserves_invariant:
  "member_implies_authenticated (auth w) \<Longrightarrow> guarded_run xs w
   \<Longrightarrow> member_implies_authenticated (auth (run xs w))"
proof (induction xs arbitrary: w)
  case Nil
  then show ?case by simp
next
  case (Cons x xs)
  from Cons.prems have "member_implies_authenticated (auth (step x w))"
    by (simp add: step_preserves_invariant)
  moreover from Cons.prems have "guarded_run xs (step x w)" by simp
  ultimately show ?case using Cons.IH by simp
qed

text \<open>
  C3, as the code has it. \<^verbatim>\<open>fetchProfile\<close> stores a successful response without
  looking at \<^verbatim>\<open>isAuthenticated\<close>, so the invariant is kept by the sequences in which
  every successful profile response arrives while the flag is true: from the state of
  the first render, over any storage, each such sequence of mount, login, logout and
  fetchProfile steps ends in a state where a non-null member implies the flag.
\<close>

theorem guarded_sequences_keep_invariant:
  "guarded_run xs (initial_world ls)
   \<Longrightarrow> member_implies_authenticated (auth (run xs (initial_world ls)))"
proof -
  have "member_implies_authenticated (auth (initial_world ls :: 'a world))"
    by (simp add: member_implies_authenticated_def initial_world_def initial_auth_def)
  then show "guarded_run xs (initial_world ls)
    \<Longrightarrow> member_implies_authenticated (auth (run xs (initial_world ls)))"
    by (rule run_preserves_invariant)
qed

theorem guarded_sequences_keep_invariant_witness:
  "guarded_run [Mount, Login ''t1'' ''r1'', FetchProfile (Inr ''kim'')] (initial_world Map.empty)
   \<and> member (auth (run [Mount, Login ''t1'' ''r1'', FetchProfile (Inr ''kim'')]
        (initial_world Map.empty))) = Some ''kim''
   \<and> member_implies_authenticated
        (auth (run [Mount, Login ''t1'' ''r1'', FetchProfile (Inr ''kim'')]
          (initial_world Map.empty)))"
proof -
  have g: "guarded_run [Mount, Login ''t1'' ''r1'', FetchProfile (Inr ''kim'')]
             (initial_world Map.empty)"
    by (simp add: initial_world_def initial_auth_def mount_def login_def getItem_def
        setItem_def truthy_def Let_def)
  have m: "member (auth (run [Mount, Login ''t1'' ''r1'', FetchProfile (Inr ''kim'')]
        (initial_world Map.empty))) = Some ''kim''"
    by (simp add: initial_world_def initial_auth_def mount_def login_def fetchProfile_def
        getItem_def setItem_def truthy_def Let_def)
  from g m guarded_sequences_keep_invariant [OF g] show ?thesis by simp
qed

text \<open>
  The claim as written fails: with no token stored, the mount effect leaves the flag
  false, and a profile request that then succeeds stores its member all the same.
\<close>

theorem member_without_authentication:
  "member (auth (run [Mount, FetchProfile (Inr ''kim'')] (initial_world Map.empty)))
     = Some ''kim''
   \<and> isAuthenticated (auth (run [Mount, FetchProfile (Inr ''kim'')] (initial_world Map.empty)))
     = False"
  by (simp add: initial_world_def initial_auth_def mount_def fetchProfile_def
      getItem_def truthy_def Let_def)

section \<open>Properties of the estimate API and the estimate list page\<close>

text \<open>
  C6. Each of the three estimate mutations carries, in its per-call configuration, the
  header \<^verbatim>\<open>Authorization: Bearer <token>\<close>, where the token is what \<^verbatim>\<open>localStorage\<close>
  holds under \<^verbatim>\<open>token\<close> when the function is called: in any world the header is
  computed from the storage alone, whatever the provider's state is, and over a storage
  holding \<open>t\<close> it is \<^verbatim>\<open>Bearer\<close> followed by \<open>t\<close> (an absent token renders as
  \<^verbatim>\<open>null\<close>). The two list reads pass no \<^verbatim>\<open>Authorization\<close> header.
\<close>

theorem estimate_mutations_send_stored_token:
  "header (fst (createEstimate (localStorage w) payload r1)) ''Authorization''
     = Some (''Bearer '' @ template_string (getItem (localStorage w) ''token''))
   \<and> header (fst (updateEstimate (localStorage w) i updateData r2)) ''Authorization''
     = Some (''Bearer '' @ template_string (getItem (localStorage w) ''token''))
   \<and> header (fst (deleteEstimate (localStorage w) i r3)) ''Authorization''
     = Some (''Bearer '' @ template_string (getItem (localStorage w) ''token''))
   \<and> header (fst (createEstimate (setItem ls ''token'' t) payload r1)) ''Authorization''
     = Some (''Bearer '' @ t)
   \<and> header (fst (updateEstimate (setItem ls ''token'' t) i updateData r2)) ''Authorization''
     = Some (''Bearer '' @ t)
   \<and> header (fst (deleteEstimate (setItem ls ''token'' t) i r3)) ''Authorization''
     = Some (''Bearer '' @ t)
   \<and> header (fst (getEstimateList r4)) ''Authorization'' = None
   \<and> header (fst (getCommissionList r5)) ''Authorization'' = None"
  by (simp add: header_def createEstimate_def updateEstimate_def deleteEstimate_def
      getEstimateList_def getCommissionList_def getItem_def setItem_def template_string_def
      Let_def)

text \<open>
  The storage and the provider's state can disagree: after a login followed by the
  withdrawal page clearing the storage, the provider still says authenticated while a
  mutation sends \<^verbatim>\<open>Bearer null\<close>.
\<close>

lemma stale_session_sends_null_token:
  "isAuthenticated (auth (world_after (handleWithdraw True (Inr ())
      (login ''abc'' ''r'' (initial_world Map.empty)))))
   \<and> header (fst (createEstimate (localStorage (world_after (handleWithdraw True (Inr ())
        (login ''abc'' ''r'' (initial_world Map.empty))))) payload r1)) ''Authorization''
       = Some ''Bearer null''"
  by (simp add: header_def createEstimate_def handleWithdraw_def login_def initial_world_def
      initial_auth_def getItem_def setItem_def removeItem_def template_string_def Let_def)

text \<open>
  C7, evaluated on the code. Once the user has confirmed: when the delete request fails,
  whatever the error, the list held is left as it is and the one alert shown is the
  fixed, non-empty text. When it succeeds, the list becomes the list of the render in
  which the button was clicked, without the entries whose identifier is \<open>i\<close>; that is
  the held list without them only if the list has not changed since the click. With the
  estimates 1, 2 and 3 on the page and the deletions of 1 and of 2 both confirmed before
  either request settles, both handlers have captured the same list: after both
  succeed the page shows 1 and 3, where the held list without 2 is just 3.
\<close>

theorem overlapping_deletes_restore_estimate:
  "estimates (handleDelete True ls (Inr msg) i captured held)
     = filter (\<lambda>e. estimate_id e \<noteq> i) captured
   \<and> alerts (handleDelete True ls (Inr msg) i captured held) = []
   \<and> estimates (handleDelete True ls (Inl err) i captured held) = held
   \<and> alerts (handleDelete True ls (Inl err) i captured held) = [estimate_delete_failed]
   \<and> estimate_delete_failed \<noteq> []
   \<and> estimates (handleDelete True ls (Inr msg2) j captured
        (estimates (handleDelete True ls (Inr msg1) i captured captured)))
       = filter (\<lambda>e. estimate_id e \<noteq> j) captured
   \<and> map estimate_id (estimates (handleDelete True ls (Inr msg1) 1
        [\<lparr>estimate_id = 1, estimate_commissionId = 7, tmpPrice = 100, statement = ''quote'',
         fixedDate = ''2024-05-01''\<rparr>,
        \<lparr>estimate_id = 2, estimate_commissionId = 7, tmpPrice = 100, statement = ''quote'',
         fixedDate = ''2024-05-01''\<rparr>,
        \<lparr>estimate_id = 3, estimate_commissionId = 7, tmpPrice = 100, statement = ''quote'',
         fixedDate = ''2024-05-01''\<rparr>]
        [\<lparr>estimate_id = 1, estimate_commissionId = 7, tmpPrice = 100, statement = ''quote'',
         fixedDate = ''2024-05-01''\<rparr>,
        \<lparr>estimate_id = 2, estimate_commissionId = 7, tmpPrice = 100, statement = ''quote'',
         fixedDate = ''2024-05-01''\<rparr>,
        \<lparr>estimate_id = 3, estimate_commissionId = 7, tmpPrice = 100, statement = ''quote'',
         fixedDate = ''2024-05-01''\<rparr>]))
       = [2, 3]
   \<and> map estimate_id (estimates (handleDelete True ls (Inr msg2) 2
        [\<lparr>estimate_id = 1, estimate_commissionId = 7, tmpPrice = 100, statement = ''quote'',
         fixedDate = ''2024-05-01''\<rparr>,
        \<lparr>estimate_id = 2, estimate_commissionId = 7, tmpPrice = 100, statement = ''quote'',
         fixedDate = ''2024-05-01''\<rparr>,
        \<lparr>estimate_id = 3, estimate_commissionId = 7, tmpPrice = 100, statement = ''quote'',
         fixedDate = ''2024-05-01''\<rparr>]
        (estimates (handleDelete True ls (Inr msg1) 1
           [\<lparr>estimate_id = 1, estimate_commissionId = 7, tmpPrice = 100, statement = ''quote'',
         fixedDate = ''2024-05-01''\<rparr>,
        \<lparr>estimate_id = 2, estimate_commissionId = 7, tmpPrice = 100, statement = ''quote'',
         fixedDate = ''2024-05-01''\<rparr>,
        \<lparr>estimate_id = 3, estimate_commissionId = 7, tmpPrice = 100, statement = ''quote'',
         fixedDate = ''2024-05-01''\<rparr>]
           [\<lparr>estimate_id = 1, estimate_commissionId = 7, tmpPrice = 100, statement = ''quote'',
         fixedDate = ''2024-05-01''\<rparr>,
        \<lparr>estimate_id = 2, estimate_commissionId = 7, tmpPrice = 100, statement = ''quote'',
         fixedDate = ''2024-05-01''\<rparr>,
        \<lparr>estimate_id = 3, estimate_commissionId = 7, tmpPrice = 100, statement = ''quote'',
         fixedDate = ''2024-05-01''\<rparr>]))))
       = [1, 3]
   \<and> map estimate_id (filter (\<lambda>e. estimate_id e \<noteq> 2)
        (estimates (handleDelete True ls (Inr msg1) 1
           [\<lparr>estimate_id = 1, estimate_commissionId = 7, tmpPrice = 100, statement = ''quote'',
         fixedDate = ''2024-05-01''\<rparr>,
        \<lparr>estimate_id = 2, estimate_commissionId = 7, tmpPrice = 100, statement = ''quote'',
         fixedDate = ''2024-05-01''\<rparr>,
        \<lparr>estimate_id = 3, estimate_commissionId = 7, tmpPrice = 100, statement = ''quote'',
         fixedDate = ''2024-05-01''\<rparr>]
           [\<lparr>estimate_id = 1, estimate_commissionId = 7, tmpPrice = 100, statement = ''quote'',
         fixedDate = ''2024-05-01''\<rparr>,
        \<lparr>estimate_id = 2, estimate_commissionId = 7, tmpPrice = 100, statement = ''quote'',
         fixedDate = ''2024-05-01''\<rparr>,
        \<lparr>estimate_id = 3, estimate_commissionId = 7, tmpPrice = 100, statement = ''quote'',
         fixedDate = ''2024-05-01''\<rparr>])))
       = [3]"
  by (simp add: handleDelete_def deleteEstimate_def estimate_delete_failed_def Let_def)

section \<open>Properties of the commission hooks\<close>

text \<open>
  C5, evaluated on the code. After a successful creation the queries under
  \<^verbatim>\<open>['commissions']\<close> are marked stale, but the returned commission is stored under the
  key \<^verbatim>\<open>['Commission', id]\<close>, with a capital C, while \<^verbatim>\<open>useCommission(id)\<close> reads
  \<^verbatim>\<open>['commission', id]\<close>: the entry of the single-commission query is what the
  invalidation alone leaves of it, never seeded, and on an empty cache it is absent.
\<close>

theorem created_commission_not_seeded_for_query:
  "useCreateCommission_onSuccess c qc (useCommission_key (commissionId c))
     = invalidateQueries (KeyArray [KString ''commissions'']) qc
         (useCommission_key (commissionId c))
   \<and> useCreateCommission_onSuccess c Map.empty (useCommission_key (commissionId c)) = None
   \<and> useCreateCommission_onSuccess c Map.empty
        [KString ''Commission'', KNumber (commissionId c)]
       = Some \<lparr>cached = Some (OneCommission c), isInvalidated = False\<rparr>"
  by (simp add: useCreateCommission_onSuccess_def useCommission_key_def setQueryData_def
      invalidateQueries_def)

text \<open>
  The update hook stores the commission under the key that the query reads; its
  invalidation, given a bare string, then marks that entry stale like every other.
\<close>

lemma updated_commission_seeded_for_query:
  "useUpdateCommission_onSuccess c Map.empty (useCommission_key (commissionId c))
     = Some \<lparr>cached = Some (OneCommission c), isInvalidated = True\<rparr>"
  by (simp add: useUpdateCommission_onSuccess_def useCommission_key_def setQueryData_def
      invalidateQueries_def)

text \<open>The creation marks a query held under the array \<^verbatim>\<open>['commissions']\<close> stale.\<close>

lemma created_commission_invalidates_list:
  "qc [KString ''commissions''] = Some st
   \<Longrightarrow> useCreateCommission_onSuccess c qc [KString ''commissions'']
       = Some (st\<lparr>isInvalidated := True\<rparr>)"
  by (simp add: useCreateCommission_onSuccess_def setQueryData_def invalidateQueries_def)

section \<open>Properties of the commission form\<close>

text \<open>
  C8. A change event of the \<^verbatim>\<open>size\<close> field with the empty string stores \<^verbatim>\<open>null\<close> under
  \<^verbatim>\<open>size\<close>: not a number (so not zero), and the handler has no failing branch. Any
  other value is stored as the number \<^verbatim>\<open>Number(value)\<close>. Every payload that
  \<^verbatim>\<open>handleSubmit\<close> hands to the create mutation from such a form carries \<^verbatim>\<open>null\<close> under
  \<^verbatim>\<open>size\<close>.
\<close>

theorem size_empty_is_null:
  "CommissionWrite_handleChange Number ''size'' [] prev ''size'' = Some JNull
   \<and> CommissionWrite_handleChange Number ''size'' [] prev ''size'' \<noteq> Some (JNumber z)
   \<and> (val \<noteq> [] \<longrightarrow>
        CommissionWrite_handleChange Number ''size'' val prev ''size''
          = Some (JNumber (Number val)))
   \<and> (\<forall>p \<in> set (payloads (CommissionWrite_handleSubmit toISOString
                     (CommissionWrite_handleChange Number ''size'' [] prev) response)).
        p ''size'' = Some JNull)"
  by (auto simp: CommissionWrite_handleChange_def CommissionWrite_handleSubmit_def Let_def
      split: option.splits sum.splits)

theorem size_empty_is_null_witness:
  "''12'' \<noteq> []
   \<and> CommissionWrite_handleChange (\<lambda>s. s) ''size'' ''12'' Map.empty ''size''
       = Some (JNumber ''12'')
   \<and> map (\<lambda>p. p ''size'')
         (payloads (CommissionWrite_handleSubmit (\<lambda>d. Some ''2024-05-01T00:00:00.000Z'')
            (CommissionWrite_handleChange (\<lambda>s. s) ''size'' [] Map.empty) (Inr ())))
       = [Some JNull]"
proof -
  have ne: "''12'' \<noteq> []" by simp
  have p: "payloads (CommissionWrite_handleSubmit (\<lambda>d. Some ''2024-05-01T00:00:00.000Z'')
             (CommissionWrite_handleChange (\<lambda>s. s) ''size'' [] Map.empty) (Inr ()))
           = [(CommissionWrite_handleChange (\<lambda>s. s) ''size'' [] Map.empty)
                (''desiredDate'' \<mapsto> JString ''2024-05-01T00:00:00.000Z'')]"
    by (simp add: CommissionWrite_handleSubmit_def)
  from ne p
    size_empty_is_null [where Number = "\<lambda>s. s" and prev = Map.empty and val = "''12''"
      and toISOString = "\<lambda>d. Some ''2024-05-01T00:00:00.000Z''" and response = "Inr ()"]
  show ?thesis by simp
qed

section \<open>Properties of the partner edit page\<close>

text \<open>
  C10. When the user has confirmed and the withdrawal mutation succeeds, neither
  \<^verbatim>\<open>token\<close> nor \<^verbatim>\<open>refreshToken\<close> is left in storage, and the provider's state is the
  one from before: \<^verbatim>\<open>isAuthenticated\<close> and \<^verbatim>\<open>member\<close> keep their values. The handler
  clears the storage as \<^verbatim>\<open>logout\<close> does and changes nothing else of the world.
\<close>

theorem withdraw_leaves_auth_state:
  "auth (world_after (handleWithdraw True (Inr done) w)) = auth w
   \<and> isAuthenticated (auth (world_after (handleWithdraw True (Inr done) w)))
       = isAuthenticated (auth w)
   \<and> member (auth (world_after (handleWithdraw True (Inr done) w))) = member (auth w)
   \<and> getItem (localStorage (world_after (handleWithdraw True (Inr done) w))) ''token'' = None
   \<and> getItem (localStorage (world_after (handleWithdraw True (Inr done) w))) ''refreshToken''
       = None
   \<and> world_after (handleWithdraw True (Inr done) w)
       = w\<lparr>localStorage := localStorage (logout w)\<rparr>"
  by (simp add: handleWithdraw_def logout_def removeItem_def getItem_def Let_def)

subsection \<open>Blocked submissions\<close>

lemma initial_edit_current: "confirm_error_current vConfirm (initial_edit emailParam)"
  by (simp add: confirm_error_current_def initial_edit_def truthy_def)

lemma partnerLoaded_current: "confirm_error_current vConfirm (partnerLoaded p st)"
  by (simp add: confirm_error_current_def partnerLoaded_def truthy_def)

lemma handleChange_current:
  assumes "confirm_error_current vConfirm st"
  shows "confirm_error_current vConfirm
           (PartnerEdit_handleChange vPhone vPassword vConfirm name val st)"
proof -
  consider (phone) "name = ''phoneNumber''" | (pw) "name = ''password''"
    | (cpw) "name = ''confirmPassword''"
    | (other) "name \<noteq> ''phoneNumber''" "name \<noteq> ''password''" "name \<noteq> ''confirmPassword''"
    by blast
  then show ?thesis
  proof cases
    case phone
    with assms show ?thesis
      by (simp add: confirm_error_current_def PartnerEdit_handleChange_def)
  next
    case pw
    with assms show ?thesis
      by (simp add: confirm_error_current_def PartnerEdit_handleChange_def)
  next
    case cpw
    then show ?thesis
      by (simp add: confirm_error_current_def PartnerEdit_handleChange_def)
  next
    case other
    with assms show ?thesis
      by (simp add: confirm_error_current_def PartnerEdit_handleChange_def)
  qed
qed

lemma handleSubmit_formData:
  "formData (state_after (PartnerEdit_handleSubmit emailParam response st)) = formData st"
  by (cases response) (simp_all add: PartnerEdit_handleSubmit_def Let_def)

lemma handleSubmit_confirm_error:
  "errors (state_after (PartnerEdit_handleSubmit emailParam response st)) ''confirmPassword''
     = errors st ''confirmPassword''"
  by (cases response) (simp_all add: PartnerEdit_handleSubmit_def Let_def)

lemma handleSubmit_current:
  "confirm_error_current vConfirm st
   \<Longrightarrow> confirm_error_current vConfirm
         (state_after (PartnerEdit_handleSubmit emailParam response st))"
  by (simp add: confirm_error_current_def handleSubmit_formData handleSubmit_confirm_error)

lemma edit_step_current:
  "confirm_error_current vConfirm st
   \<Longrightarrow> confirm_error_current vConfirm (edit_step vPhone vPassword vConfirm emailParam ev st)"
  by (cases ev) (simp_all add: handleChange_current handleSubmit_current partnerLoaded_current)

lemma edit_run_current:
  "confirm_error_current vConfirm st
   \<Longrightarrow> confirm_error_current vConfirm (edit_run vPhone vPassword vConfirm emailParam evs st)"
  by (induction evs arbitrary: st) (simp_all add: edit_step_current)

lemma blocked_submit_effects:
  "submit_blocked st \<Longrightarrow>
     errors (state_after (PartnerEdit_handleSubmit emailParam response st)) ''general''
       = Some check_input_again
     \<and> update_requests (PartnerEdit_handleSubmit emailParam response st) = []
     \<and> routes (PartnerEdit_handleSubmit emailParam response st) = []"
  by (simp add: PartnerEdit_handleSubmit_def)

lemma check_input_again_nonempty: "check_input_again \<noteq> []"
  by (simp add: check_input_again_def)

text \<open>
  C9, as the code has it. In every state the page reaches from its first render by
  change events, submissions and profile arrivals: when the password is non-empty and
  differs from the confirmation, or the \<^verbatim>\<open>phoneNumber\<close>, \<^verbatim>\<open>password\<close> or
  \<^verbatim>\<open>confirmPassword\<close> error is non-empty, \<^verbatim>\<open>handleSubmit\<close> stores the fixed, non-empty
  text under \<^verbatim>\<open>general\<close>, hands nothing to the update mutation and navigates nowhere.
  While a confirmation is typed in, the \<^verbatim>\<open>confirmPassword\<close> error is the message that
  \<^verbatim>\<open>validateConfirmPassword\<close> gives for the password and the confirmation as they stand,
  before and after the submission: it is non-empty when the validator rejects the pair
  (as a match check does for \<^verbatim>\<open>abc\<close> and \<^verbatim>\<open>abcd\<close>).
\<close>

theorem mismatch_blocks_submission:
  assumes "st = edit_run vPhone vPassword vConfirm emailParam evs (initial_edit emailParam)"
  shows "(truthy (formData st ''password'')
            \<and> formData st ''password'' \<noteq> formData st ''confirmPassword''
          \<or> truthy (errors st ''phoneNumber'') \<or> truthy (errors st ''password'')
          \<or> truthy (errors st ''confirmPassword'')
          \<longrightarrow> errors (state_after (PartnerEdit_handleSubmit emailParam response st)) ''general''
                = Some check_input_again
              \<and> check_input_again \<noteq> []
              \<and> update_requests (PartnerEdit_handleSubmit emailParam response st) = []
              \<and> routes (PartnerEdit_handleSubmit emailParam response st) = [])
         \<and> (truthy (formData st ''confirmPassword'')
            \<longrightarrow> errors st ''confirmPassword''
                  = Some (message (vConfirm (formData st ''password'')
                            (formData st ''confirmPassword'')))
                \<and> errors (state_after (PartnerEdit_handleSubmit emailParam response st))
                    ''confirmPassword''
                  = Some (message (vConfirm (formData st ''password'')
                            (formData st ''confirmPassword''))))
         \<and> (truthy (formData st ''confirmPassword'')
              \<and> message (vConfirm (formData st ''password'') (formData st ''confirmPassword''))
                  \<noteq> []
            \<longrightarrow> truthy (errors st ''confirmPassword''))"
proof -
  have cur: "confirm_error_current vConfirm st"
    unfolding assms by (rule edit_run_current [OF initial_edit_current])
  have blocking: "errors (state_after (PartnerEdit_handleSubmit emailParam response st)) ''general''
                = Some check_input_again
              \<and> check_input_again \<noteq> []
              \<and> update_requests (PartnerEdit_handleSubmit emailParam response st) = []
              \<and> routes (PartnerEdit_handleSubmit emailParam response st) = []"
    if b: "truthy (formData st ''password'')
            \<and> formData st ''password'' \<noteq> formData st ''confirmPassword''
          \<or> truthy (errors st ''phoneNumber'') \<or> truthy (errors st ''password'')
          \<or> truthy (errors st ''confirmPassword'')"
  proof -
    from b have "submit_blocked st" by (auto simp: submit_blocked_def)
    from blocked_submit_effects [OF this, of emailParam response] check_input_again_nonempty
    show ?thesis by simp
  qed
  have shown: "errors st ''confirmPassword''
                  = Some (message (vConfirm (formData st ''password'')
                            (formData st ''confirmPassword'')))"
    if "truthy (formData st ''confirmPassword'')"
    using cur that by (simp add: confirm_error_current_def)
  have nonempty: "truthy (errors st ''confirmPassword'')"
    if "truthy (formData st ''confirmPassword'')
        \<and> message (vConfirm (formData st ''password'') (formData st ''confirmPassword'')) \<noteq> []"
    using shown that by (simp add: truthy_def)
  from blocking shown nonempty show ?thesis
    by (simp add: handleSubmit_confirm_error)
qed

theorem mismatch_blocks_submission_witness:
  "formData (edit_run (\<lambda>v. \<lparr>message = []\<rparr>) (\<lambda>v. \<lparr>message = []\<rparr>)
       (\<lambda>p c. \<lparr>message = (if p = c then [] else ''no match'')\<rparr>) (Some ''kim@example.com'')
       [Change ''password'' ''abc'', Change ''confirmPassword'' ''abcd'' :: unit edit_event]
       (initial_edit (Some ''kim@example.com''))) ''password'' = Some ''abc''
   \<and> formData (edit_run (\<lambda>v. \<lparr>message = []\<rparr>) (\<lambda>v. \<lparr>message = []\<rparr>)
       (\<lambda>p c. \<lparr>message = (if p = c then [] else ''no match'')\<rparr>) (Some ''kim@example.com'')
       [Change ''password'' ''abc'', Change ''confirmPassword'' ''abcd'' :: unit edit_event]
       (initial_edit (Some ''kim@example.com''))) ''confirmPassword'' = Some ''abcd''
   \<and> errors (state_after (PartnerEdit_handleSubmit (Some ''kim@example.com'') (Inr ())
       (edit_run (\<lambda>v. \<lparr>message = []\<rparr>) (\<lambda>v. \<lparr>message = []\<rparr>)
         (\<lambda>p c. \<lparr>message = (if p = c then [] else ''no match'')\<rparr>) (Some ''kim@example.com'')
         [Change ''password'' ''abc'', Change ''confirmPassword'' ''abcd'' :: unit edit_event]
         (initial_edit (Some ''kim@example.com''))))) ''general'' = Some check_input_again
   \<and> update_requests (PartnerEdit_handleSubmit (Some ''kim@example.com'') (Inr ())
       (edit_run (\<lambda>v. \<lparr>message = []\<rparr>) (\<lambda>v. \<lparr>message = []\<rparr>)
         (\<lambda>p c. \<lparr>message = (if p = c then [] else ''no match'')\<rparr>) (Some ''kim@example.com'')
         [Change ''password'' ''abc'', Change ''confirmPassword'' ''abcd'' :: unit edit_event]
         (initial_edit (Some ''kim@example.com'')))) = []
   \<and> errors (edit_run (\<lambda>v. \<lparr>message = []\<rparr>) (\<lambda>v. \<lparr>message = []\<rparr>)
       (\<lambda>p c. \<lparr>message = (if p = c then [] else ''no match'')\<rparr>) (Some ''kim@example.com'')
       [Change ''password'' ''abc'', Change ''confirmPassword'' ''abcd'' :: unit edit_event]
       (initial_edit (Some ''kim@example.com''))) ''confirmPassword'' = Some ''no match''"
proof -
  define st where "st = edit_run (\<lambda>v. \<lparr>message = []\<rparr>) (\<lambda>v. \<lparr>message = []\<rparr>)
       (\<lambda>p c. \<lparr>message = (if p = c then [] else ''no match'')\<rparr>) (Some ''kim@example.com'')
       [Change ''password'' ''abc'', Change ''confirmPassword'' ''abcd'' :: unit edit_event]
       (initial_edit (Some ''kim@example.com''))"
  have f: "formData st ''password'' = Some ''abc''"
          "formData st ''confirmPassword'' = Some ''abcd''"
    by (simp_all add: st_def PartnerEdit_handleChange_def initial_edit_def truthy_def)
  have t: "truthy (formData st ''password'')" "truthy (formData st ''confirmPassword'')"
          "formData st ''password'' \<noteq> formData st ''confirmPassword''"
    using f by (simp_all add: truthy_def)
  from mismatch_blocks_submission [OF st_def, where response = "Inr ()"] t f
  show ?thesis unfolding st_def by simp
qed

text \<open>
  The claim as written fails where the confirmation was never typed in: after the one
  change event that sets the password to \<^verbatim>\<open>abc\<close>, the password is non-empty and differs
  from the confirmation, the submission is blocked with the general error and no request,
  and the \<^verbatim>\<open>confirmPassword\<close> error is still the empty string, although the validator
  would reject the pair.
\<close>

theorem blocked_with_empty_confirm_error:
  "formData (edit_run (\<lambda>v. \<lparr>message = []\<rparr>) (\<lambda>v. \<lparr>message = []\<rparr>)
       (\<lambda>p c. \<lparr>message = (if p = c then [] else ''no match'')\<rparr>)
       None [Change ''password'' ''abc'' :: unit edit_event] (initial_edit None)) ''password''
     = Some ''abc''
   \<and> formData (edit_run (\<lambda>v. \<lparr>message = []\<rparr>) (\<lambda>v. \<lparr>message = []\<rparr>)
       (\<lambda>p c. \<lparr>message = (if p = c then [] else ''no match'')\<rparr>)
       None [Change ''password'' ''abc'' :: unit edit_event] (initial_edit None))
       ''confirmPassword'' = Some []
   \<and> update_requests (PartnerEdit_handleSubmit None (Inr ())
       (edit_run (\<lambda>v. \<lparr>message = []\<rparr>) (\<lambda>v. \<lparr>message = []\<rparr>)
         (\<lambda>p c. \<lparr>message = (if p = c then [] else ''no match'')\<rparr>)
         None [Change ''password'' ''abc'' :: unit edit_event] (initial_edit None))) = []
   \<and> errors (state_after (PartnerEdit_handleSubmit None (Inr ())
       (edit_run (\<lambda>v. \<lparr>message = []\<rparr>) (\<lambda>v. \<lparr>message = []\<rparr>)
         (\<lambda>p c. \<lparr>message = (if p = c then [] else ''no match'')\<rparr>)
         None [Change ''password'' ''abc'' :: unit edit_event] (initial_edit None))))
       ''general'' = Some check_input_again
   \<and> errors (state_after (PartnerEdit_handleSubmit None (Inr ())
       (edit_run (\<lambda>v. \<lparr>message = []\<rparr>) (\<lambda>v. \<lparr>message = []\<rparr>)
         (\<lambda>p c. \<lparr>message = (if p = c then [] else ''no match'')\<rparr>)
         None [Change ''password'' ''abc'' :: unit edit_event] (initial_edit None))))
       ''confirmPassword'' = Some []"
  by (simp add: PartnerEdit_handleChange_def PartnerEdit_handleSubmit_def submit_blocked_def
      initial_edit_def truthy_def)

end
